theory Spec2Isabelle
  imports Main
begin

section \<open>The external world of the scripts\<close>

text \<open>
  The scripts are straight-line shell programs that call external commands. An external
  command is modelled by what the script can observe of it: its exit code and the text it
  prints (stdout and stderr together, as \<^verbatim>\<open>2>&1\<close> captures them). Every side effect
  of a run is recorded, in order, as an event of the run's trace.
\<close>

type_synonym cmd_result = "nat \<times> string"

datatype event =
    Log string                \<comment> \<open>\<^verbatim>\<open>log "..."\<close>: a line on stdout, after the prefix\<close>
  | LogFail string            \<comment> \<open>\<^verbatim>\<open>fail "..."\<close>: a line on stdout, after the prefix and \<^verbatim>\<open>FAIL: \<close>\<close>
  | LogWarn string            \<comment> \<open>\<^verbatim>\<open>warn "..."\<close>: a line on stdout, after the prefix and \<^verbatim>\<open>WARN: \<close>\<close>
  | MessageSend string        \<comment> \<open>\<^verbatim>\<open>openclaw message send --channel whatsapp --target t --message "."\<close>\<close>
  | Pkill                     \<comment> \<open>\<^verbatim>\<open>pkill -f openclaw-gateway\<close>\<close>
  | Sleep nat                 \<comment> \<open>\<^verbatim>\<open>sleep n\<close>\<close>
  | GatewayStart              \<comment> \<open>\<^verbatim>\<open>nohup openclaw gateway > /tmp/gateway.log 2>&1 &\<close>\<close>
  | TwilioCall string string  \<comment> \<open>the \<^verbatim>\<open>curl\<close> POST to Twilio's Calls.json: To, From\<close>
  | GmailSend string string   \<comment> \<open>\<^verbatim>\<open>gog gmail send --to t --subject s ...\<close>\<close>
  | WriteState int            \<comment> \<open>\<^verbatim>\<open>echo v > "$STATE_FILE"\<close>, when it succeeds\<close>
  | SendAlert                 \<comment> \<open>the shell function \<^verbatim>\<open>send_alert\<close> is entered\<close>
  | ChannelsStatus            \<comment> \<open>\<^verbatim>\<open>openclaw channels status\<close>\<close>
  | GatewayRestart            \<comment> \<open>\<^verbatim>\<open>openclaw gateway restart\<close>\<close>
  | SystemctlRestart          \<comment> \<open>\<^verbatim>\<open>systemctl --user restart openclaw-gateway\<close>\<close>
  | CamofoxStart              \<comment> \<open>\<^verbatim>\<open>nohup node server.js &\<close> of the Camofox browser\<close>

text \<open>Decimal rendering of a shell integer, as \<^verbatim>\<open>${elapsed}\<close> expands it.\<close>

fun dec_nat :: "nat \<Rightarrow> string" where
  "dec_nat n =
     (if n < 10 then [char_of (48 + n)]
      else dec_nat (n div 10) @ [char_of (48 + n mod 10)])"

declare dec_nat.simps [simp del]

definition dec_int :: "int \<Rightarrow> string" where
  "dec_int i = (if i < 0 then CHR ''-'' # dec_nat (nat (- i)) else dec_nat (nat i))"

text \<open>\<^verbatim>\<open>${VAR:-default}\<close>: the default replaces a variable that is unset or empty.\<close>

definition or_default :: "string \<Rightarrow> string \<Rightarrow> string" where
  "or_default v d = (if v = [] then d else v)"

section \<open>whatsapp-watchdog.sh\<close>

text \<open>
  The installation a run finds, the same from one run to the next: the variables after
  \<^verbatim>\<open>source "$HOME/.env"\<close>, and whether the user the script runs as can write the state
  file (whether the redirection \<^verbatim>\<open>> "$STATE_FILE"\<close> succeeds). An unset variable and an
  empty one are both the empty string: the script only tests them with \<^verbatim>\<open>-z\<close> and
  \<^verbatim>\<open>:-\<close>.
\<close>

record wd_env =
  ASSISTANT_WHATSAPP_PHONE :: string
  ALERT_PHONE :: string
  ALERT_EMAIL :: string
  GOG_ACCOUNT :: string
  TWILIO_ACCOUNT_SID :: string
  TWILIO_API_KEY_SID :: string
  TWILIO_API_KEY_SECRET :: string
  TWILIO_FROM_NUMBER :: string
  state_writable :: bool

text \<open>
  What one run observes: the clock (\<^verbatim>\<open>date +%s\<close>), the result of the k-th call of
  \<^verbatim>\<open>openclaw message send\<close> of the run, and the output of \<^verbatim>\<open>pgrep\<close>.
\<close>

record wd_world =
  now :: int
  message_send :: "nat \<Rightarrow> cmd_result"
  pgrep :: string

text \<open>
  The state a run threads through: the state file \<^verbatim>\<open>/tmp/whatsapp-watchdog-state\<close>
  and the trace. The file is \<open>None\<close> when \<^verbatim>\<open>cat\<close> fails on it (missing or unreadable),
  and \<open>Some v\<close> when it holds the decimal integer \<open>v\<close>, which is all the script ever
  writes to it (\<^verbatim>\<open>0\<close> or \<^verbatim>\<open>date +%s\<close>).
\<close>

record wd_state =
  state_file :: "int option"
  trace :: "event list"

definition emit :: "event \<Rightarrow> wd_state \<Rightarrow> wd_state" where
  "emit e s = s\<lparr>trace := trace s @ [e]\<rparr>"

text \<open>
  \<^verbatim>\<open>echo v > "$STATE_FILE"\<close>, lines 97, 109 and 119. The script runs under
  \<^verbatim>\<open>set +e\<close> and never looks at the status of the write (lines 109 and 119 also have
  \<^verbatim>\<open>2>/dev/null\<close>): when the redirection fails nothing is written, the file stays as
  it was, and the run goes on.
\<close>

definition write_state :: "wd_env \<Rightarrow> int \<Rightarrow> wd_state \<Rightarrow> wd_state" where
  "write_state env v s =
     (if state_writable env then emit (WriteState v) (s\<lparr>state_file := Some v\<rparr>) else s)"

fun is_probe :: "event \<Rightarrow> bool" where
  "is_probe (MessageSend t) = True"
| "is_probe ChannelsStatus = True"
| "is_probe e = False"

fun is_recovery :: "event \<Rightarrow> bool" where
  "is_recovery GatewayStart = True"
| "is_recovery GatewayRestart = True"
| "is_recovery SystemctlRestart = True"
| "is_recovery e = False"

fun is_call :: "event \<Rightarrow> bool" where
  "is_call (TwilioCall t f) = True"
| "is_call e = False"

fun is_email :: "event \<Rightarrow> bool" where
  "is_email (GmailSend t s) = True"
| "is_email e = False"

fun is_escalation :: "event \<Rightarrow> bool" where
  "is_escalation SendAlert = True"
| "is_escalation e = False"

definition probes :: "event list \<Rightarrow> nat" where
  "probes tr = length (filter is_probe tr)"

definition recoveries :: "event list \<Rightarrow> nat" where
  "recoveries tr = length (filter is_recovery tr)"

definition calls :: "event list \<Rightarrow> nat" where
  "calls tr = length (filter is_call tr)"

definition emails :: "event list \<Rightarrow> nat" where
  "emails tr = length (filter is_email tr)"

definition escalations :: "event list \<Rightarrow> nat" where
  "escalations tr = length (filter is_escalation tr)"

text \<open>Line 32: \<^verbatim>\<open>last_alert=$(cat "$STATE_FILE" 2>/dev/null || echo "0")\<close>.\<close>

definition read_last_alert :: "int option \<Rightarrow> int" where
  "read_last_alert f = (case f of None \<Rightarrow> 0 | Some v \<Rightarrow> v)"

definition cooldown :: int where
  "cooldown = 3600"

text \<open>
  \<^verbatim>\<open>try_send\<close>, lines 37-48: the return code is 0 when the send command exits with 0
  and 1 otherwise; the captured output only goes into the log line.
\<close>

definition try_send :: "wd_env \<Rightarrow> wd_world \<Rightarrow> wd_state \<Rightarrow> nat \<times> wd_state" where
  "try_send env w s =
     (let (rc, result) = message_send w (probes (trace s));
          s1 = emit (MessageSend (or_default (ASSISTANT_WHATSAPP_PHONE env) ''+1234567890'')) s
      in if rc = 0 then (0, s1)
         else (1, emit (LogFail (''Send failed: '' @ result)) s1))"

text \<open>\<^verbatim>\<open>restart_gateway\<close>, lines 51-58.\<close>

definition restart_gateway :: "wd_world \<Rightarrow> wd_state \<Rightarrow> wd_state" where
  "restart_gateway w s =
     (let s1 = emit (Log ''Restarting gateway...'') s;
          s2 = emit Pkill s1;
          s3 = emit (Sleep 3) s2;
          s4 = emit GatewayStart s3;
          s5 = emit (Sleep 8) s4
      in emit (Log (''Gateway restarted (PID: '' @ pgrep w @ '')'')) s5)"

definition twilio_unset :: "wd_env \<Rightarrow> bool" where
  "twilio_unset env =
     (TWILIO_ACCOUNT_SID env = [] \<or> TWILIO_API_KEY_SID env = [] \<or>
      TWILIO_API_KEY_SECRET env = [] \<or> TWILIO_FROM_NUMBER env = [])"

text \<open>
  \<^verbatim>\<open>send_alert\<close>, lines 61-99. The first component of the pair computed first says
  whether the function has returned at line 69; the cooldown is looked at in the
  \<^verbatim>\<open>else\<close> branch of the Twilio test only. Entering the function is recorded in
  the trace, so that a run's escalation attempts can be counted.
\<close>

definition send_alert :: "wd_env \<Rightarrow> wd_world \<Rightarrow> int \<Rightarrow> wd_state \<Rightarrow> wd_state" where
  "send_alert env w last_alert s =
     (let alert_phone = or_default (ALERT_PHONE env) ''+1234567890'';
          sa = emit SendAlert s;
          (returned, s1) =
            (if twilio_unset env
             then (False, emit (Log ''Twilio not configured, skipping call alert'') sa)
             else
               (let elapsed = now w - last_alert in
                if elapsed < cooldown
                then (True, emit (Log (''Alert cooldown active ('' @ dec_int elapsed @ ''s < '' @
                                        dec_int cooldown @ ''s), skipping'')) sa)
                else (False,
                      emit (TwilioCall alert_phone (TWILIO_FROM_NUMBER env))
                        (emit (Log (''Calling '' @ alert_phone @
                                    '' to alert about WhatsApp failure...'')) sa))))
      in if returned then s1
         else
           (let s2 = emit (GmailSend (or_default (ALERT_EMAIL env) ''admin@yourcompany.com'')
                             ''Assistant WhatsApp is DOWN - QR scan needed'') s1;
                s3 = write_state env (now w) s2
            in emit (Log ''Alert sent (call + email)'') s3))"

text \<open>
  The main part, lines 101-126, with line 32 before it. The result is the exit status
  and the final state.
\<close>

definition watchdog :: "wd_env \<Rightarrow> wd_world \<Rightarrow> wd_state \<Rightarrow> nat \<times> wd_state" where
  "watchdog env w s0 =
     (let last_alert = read_last_alert (state_file s0);
          s1 = emit (Log ''Starting health check...'') s0;
          (rc1, s2) = try_send env w s1
      in if rc1 = 0
         then (0, write_state env 0 (emit (Log ''OK - WhatsApp is healthy'') s2))
         else
           (let s3 = emit (Log ''Send test failed, attempting auto-recovery...'') s2;
                s4 = restart_gateway w s3;
                (rc2, s5) = try_send env w s4
            in if rc2 = 0
               then (0, write_state env 0
                          (emit (Log ''RECOVERED - WhatsApp working after gateway restart'') s5))
               else
                 (let s6 = emit (LogFail
                             ''WhatsApp is DOWN and cannot auto-recover. Needs QR re-scan.'') s5
                  in (1, send_alert env w last_alert s6))))"

text \<open>A fresh run: the given state file and an empty trace.\<close>

definition fresh :: "int option \<Rightarrow> wd_state" where
  "fresh f = \<lparr>state_file = f, trace = []\<rparr>"

definition run_watchdog :: "wd_env \<Rightarrow> wd_world \<Rightarrow> int option \<Rightarrow> nat \<times> wd_state" where
  "run_watchdog env w f = watchdog env w (fresh f)"

section \<open>grep\<close>

text \<open>
  The patterns the scripts give to \<^verbatim>\<open>grep -q\<close> are literal fragments joined by
  \<^verbatim>\<open>.*\<close>: \<^verbatim>\<open>connected\<close>, \<^verbatim>\<open>linked.*running.*connected\<close>. Such a
  pattern matches a line when the fragments occur in it in this order, one after the
  other; \<^verbatim>\<open>grep -q\<close> succeeds when some line of its input matches, and \<^verbatim>\<open>-i\<close>
  ignores the case of ASCII letters.
\<close>

fun starts_with :: "string \<Rightarrow> string \<Rightarrow> bool" where
  "starts_with [] l = True"
| "starts_with (p # ps) [] = False"
| "starts_with (p # ps) (c # cs) = (p = c \<and> starts_with ps cs)"

text \<open>The rest of the line after the leftmost occurrence of a fragment.\<close>

fun find_after :: "string \<Rightarrow> string \<Rightarrow> string option" where
  "find_after p [] = (if p = [] then Some [] else None)"
| "find_after p (c # cs) =
     (if starts_with p (c # cs) then Some (drop (length p) (c # cs)) else find_after p cs)"

fun match_line :: "string list \<Rightarrow> string \<Rightarrow> bool" where
  "match_line [] l = True"
| "match_line (p # ps) l =
     (case find_after p l of None \<Rightarrow> False | Some r \<Rightarrow> match_line ps r)"

fun split_lines :: "string \<Rightarrow> string list" where
  "split_lines [] = [[]]"
| "split_lines (c # cs) =
     (if c = CHR 0x0A then [] # split_lines cs
      else (case split_lines cs of [] \<Rightarrow> [[c]] | l # ls \<Rightarrow> (c # l) # ls))"

definition to_lower :: "char \<Rightarrow> char" where
  "to_lower c =
     (let n = (of_char c :: nat) in if 65 \<le> n \<and> n \<le> 90 then char_of (n + 32) else c)"

definition grep_q :: "string list \<Rightarrow> string \<Rightarrow> bool" where
  "grep_q pat txt = list_ex (match_line pat) (split_lines txt)"

definition grep_qi :: "string list \<Rightarrow> string \<Rightarrow> bool" where
  "grep_qi pat txt =
     list_ex (match_line (map (map to_lower) pat)) (split_lines (map to_lower txt))"

section \<open>whatsapp-healthcheck.sh\<close>

text \<open>What one run observes: the result of the k-th \<^verbatim>\<open>openclaw channels status\<close>.\<close>

record hc_world =
  channels_status :: "nat \<Rightarrow> cmd_result"

definition em_dash :: string where
  "em_dash = [CHR 0xE2, CHR 0x80, CHR 0x94]"

text \<open>
  \<^verbatim>\<open>check_whatsapp\<close>, lines 19-29: the return code is 0 when the captured status text
  has \<^verbatim>\<open>connected\<close> and has no \<^verbatim>\<open>disconnected\<close>, and 1 otherwise; the exit code of
  the status command is not looked at.
\<close>

definition check_whatsapp :: "hc_world \<Rightarrow> event list \<Rightarrow> nat \<times> event list" where
  "check_whatsapp w tr =
     (let (rc, status) = channels_status w (probes tr);
          tr1 = tr @ [ChannelsStatus]
      in if grep_q [''connected''] status
         then (if grep_q [''disconnected''] status then (1, tr1) else (0, tr1))
         else (1, tr1))"

text \<open>\<^verbatim>\<open>restart_gateway\<close>, lines 32-38.\<close>

definition hc_restart_gateway :: "event list \<Rightarrow> event list" where
  "hc_restart_gateway tr =
     tr @ [Log ''Restarting gateway...'', GatewayRestart, Sleep 15,
           Log ''Gateway restarted, checking status...'']"

text \<open>The main part, lines 40-70: the exit status and the trace of the run.\<close>

definition whatsapp_healthcheck :: "hc_world \<Rightarrow> nat \<times> event list" where
  "whatsapp_healthcheck w =
     (let tr0 = [Log ''Starting health check...''];
          (rc1, tr1) = check_whatsapp w tr0
      in if rc1 = 0
         then (0, tr1 @ [Log (''OK '' @ em_dash @ '' WhatsApp is connected'')])
         else
           (let tr2 = tr1 @ [LogFail ''WhatsApp is disconnected, attempting auto-recovery...''];
                tr3 = hc_restart_gateway tr2;
                (rc2, tr4) = check_whatsapp w tr3
            in if rc2 = 0
               then (0, tr4 @ [Log (''RECOVERED '' @ em_dash @
                                    '' WhatsApp reconnected after gateway restart'')])
               else
                 (let tr5 = tr4 @ [LogFail
                              ''Still disconnected after first restart, trying again...''];
                      tr6 = hc_restart_gateway tr5;
                      (rc3, tr7) = check_whatsapp w tr6
                  in if rc3 = 0
                     then (0, tr7 @ [Log (''RECOVERED '' @ em_dash @
                                          '' WhatsApp reconnected after second restart'')])
                     else (1, tr7 @ [LogFail (''WhatsApp is DOWN '' @ em_dash @
                             '' could not auto-recover. May need QR re-scan '' @
                             ''(openclaw channels login).'')]))))"

section \<open>health-check.sh\<close>

text \<open>
  What one run of the toolkit health check observes, under the names of the shell
  variables that hold it: the texts captured from \<^verbatim>\<open>systemctl is-active\<close> (before and
  after the restart), \<^verbatim>\<open>openclaw health\<close>, \<^verbatim>\<open>openclaw channels status --probe\<close>
  (before and after the restart), the heartbeat lines of \<^verbatim>\<open>openclaw status\<close> and the
  names cut out of them, the disk and memory percentages, the two answers of Camofox's
  health URL, and the size in MB of each log file that exists. \<open>TK_ALERT_EMAIL\<close> is the
  variable \<^verbatim>\<open>ALERT_EMAIL\<close>.
\<close>

record tk_world =
  TK_ALERT_EMAIL :: string
  GW_STATUS :: string
  GW_STATUS2 :: string
  HEALTH_OUTPUT :: string
  WA_OUTPUT :: string
  WA_OUTPUT2 :: string
  HB_OUTPUT :: string
  DISABLED :: string
  DISK_PCT :: int
  MEM_PCT :: int
  CAMOFOX_HEALTH :: string
  CAMOFOX_HEALTH2 :: string
  LOG_SIZES :: "(string \<times> int) list"

record tk_state =
  FAILURES :: nat
  WARNINGS :: nat
  tk_trace :: "event list"

definition tk_emit :: "event \<Rightarrow> tk_state \<Rightarrow> tk_state" where
  "tk_emit e s = s\<lparr>tk_trace := tk_trace s @ [e]\<rparr>"

definition tk_log :: "string \<Rightarrow> tk_state \<Rightarrow> tk_state" where
  "tk_log m s = tk_emit (Log m) s"

definition tk_warn :: "string \<Rightarrow> tk_state \<Rightarrow> tk_state" where
  "tk_warn m s = (tk_emit (LogWarn m) s)\<lparr>WARNINGS := WARNINGS s + 1\<rparr>"

definition tk_fail :: "string \<Rightarrow> tk_state \<Rightarrow> tk_state" where
  "tk_fail m s = (tk_emit (LogFail m) s)\<lparr>FAILURES := FAILURES s + 1\<rparr>"

text \<open>\<^verbatim>\<open>send_alert\<close>, lines 43-50: an email and a log line.\<close>

definition tk_send_alert :: "tk_world \<Rightarrow> string \<Rightarrow> tk_state \<Rightarrow> tk_state" where
  "tk_send_alert w subject s =
     (let to = or_default (TK_ALERT_EMAIL w) ''admin@yourcompany.com'';
          s1 = tk_emit SendAlert s;
          s2 = tk_emit (GmailSend to subject) s1
      in tk_log (''Alert email sent to '' @ to) s2)"

text \<open>Lines 59-74.\<close>

definition gateway_process_check :: "tk_world \<Rightarrow> tk_state \<Rightarrow> tk_state" where
  "gateway_process_check w s =
     (let s1 = tk_log ''[1/6] Gateway process check...'' s
      in if GW_STATUS w \<noteq> ''active''
         then
           (let s2 = tk_fail (''Gateway not running (status: '' @ GW_STATUS w @
                              ''). Restarting...'') s1;
                s3 = tk_emit SystemctlRestart s2;
                s4 = tk_emit (Sleep 10) s3
            in if GW_STATUS2 w = ''active''
               then tk_log ''  Gateway restarted successfully'' s4
               else tk_send_alert w ''CRITICAL: OpenClaw Gateway Down''
                      (tk_fail ''Gateway failed to restart!'' s4))
         else tk_log ''  Gateway is running'' s1)"

text \<open>Lines 79-87.\<close>

definition gateway_rpc_probe :: "tk_world \<Rightarrow> tk_state \<Rightarrow> tk_state" where
  "gateway_rpc_probe w s =
     (let s1 = tk_log ''[2/6] Gateway RPC probe...'' s
      in if grep_qi [''linked''] (HEALTH_OUTPUT w)
         then tk_log ''  Gateway RPC healthy'' s1
         else tk_emit (Sleep 10)
                (tk_emit GatewayRestart (tk_fail ''Gateway RPC probe failed. Restarting...'' s1)))"

text \<open>Lines 92-119.\<close>

definition whatsapp_connection_check :: "tk_world \<Rightarrow> tk_state \<Rightarrow> tk_state" where
  "whatsapp_connection_check w s =
     (let s1 = tk_log ''[3/6] WhatsApp connection check...'' s;
          alert = tk_send_alert w ''CRITICAL: WhatsApp Disconnected''
      in if grep_qi [''linked'', ''running'', ''connected''] (WA_OUTPUT w)
         then tk_log ''  WhatsApp is linked, running, and connected'' s1
         else if grep_qi [''linked''] (WA_OUTPUT w)
         then
           (let s2 = tk_warn
                  ''WhatsApp linked but may not be fully connected. Restarting gateway...'' s1;
                s3 = tk_emit (Sleep 15) (tk_emit GatewayRestart s2)
            in if grep_qi [''linked'', ''running'', ''connected''] (WA_OUTPUT2 w)
               then tk_log ''  WhatsApp recovered after restart'' s3
               else alert (tk_fail ''WhatsApp failed to reconnect after restart!'' s3))
         else
           (let s2 = tk_fail ''WhatsApp not linked! Restarting gateway...'' s1;
                s3 = tk_emit (Sleep 15) (tk_emit GatewayRestart s2)
            in if grep_qi [''linked'', ''running'', ''connected''] (WA_OUTPUT2 w)
               then tk_log ''  WhatsApp recovered after restart'' s3
               else alert (tk_fail ''WhatsApp failed to reconnect!'' s3)))"

text \<open>Lines 124-131.\<close>

definition agent_heartbeat_check :: "tk_world \<Rightarrow> tk_state \<Rightarrow> tk_state" where
  "agent_heartbeat_check w s =
     (let s1 = tk_log ''[4/6] Agent heartbeat check...'' s
      in if grep_qi [''disabled''] (HB_OUTPUT w)
         then tk_warn (''Some agent heartbeats are disabled: '' @ DISABLED w) s1
         else tk_log ''  All agent heartbeats enabled'' s1)"

text \<open>Lines 136-150.\<close>

definition disk_memory_check :: "tk_world \<Rightarrow> tk_state \<Rightarrow> tk_state" where
  "disk_memory_check w s =
     (let s1 = tk_log ''[5/6] Disk & memory check...'' s;
          s2 = (if DISK_PCT w \<ge> 90
                then tk_send_alert w (''WARN: Disk usage at '' @ dec_int (DISK_PCT w) @ ''%'')
                       (tk_warn (''Disk usage is at '' @ dec_int (DISK_PCT w) @ ''%'') s1)
                else tk_log (''  Disk usage: '' @ dec_int (DISK_PCT w) @ ''%'') s1)
      in if MEM_PCT w \<ge> 90
         then tk_warn (''Memory usage is at '' @ dec_int (MEM_PCT w) @ ''%'') s2
         else tk_log (''  Memory usage: '' @ dec_int (MEM_PCT w) @ ''%'') s2)"

text \<open>Lines 156-170; the pattern is \<^verbatim>\<open>"ok":true\<close>, with its double quotes.\<close>

definition camofox_ok :: "string \<Rightarrow> bool" where
  "camofox_ok txt = grep_q [[CHR 0x22] @ ''ok'' @ [CHR 0x22] @ '':true''] txt"

definition camofox_check :: "tk_world \<Rightarrow> tk_state \<Rightarrow> tk_state" where
  "camofox_check w s =
     (let s1 = tk_log ''[5b/6] Camofox browser check...'' s
      in if camofox_ok (CAMOFOX_HEALTH w)
         then tk_log ''  Camofox is running'' s1
         else
           (let s2 = tk_warn ''Camofox not running. Starting...'' s1;
                s3 = tk_emit (Sleep 5) (tk_emit CamofoxStart s2)
            in if camofox_ok (CAMOFOX_HEALTH2 w)
               then tk_log ''  Camofox started successfully'' s3
               else tk_fail ''Camofox failed to start!'' s3))"

text \<open>Lines 174-183: the loop over the log files that exist.\<close>

fun log_size_loop :: "(string \<times> int) list \<Rightarrow> tk_state \<Rightarrow> tk_state" where
  "log_size_loop [] s = s"
| "log_size_loop ((logfile, size_mb) # rest) s =
     log_size_loop rest
       (if size_mb \<ge> 500
        then tk_warn (''Log file '' @ logfile @ '' is '' @ dec_int size_mb @
                      ''MB - consider rotation'') s
        else s)"

definition log_size_check :: "tk_world \<Rightarrow> tk_state \<Rightarrow> tk_state" where
  "log_size_check w s =
     tk_log ''  Log sizes OK'' (log_size_loop (LOG_SIZES w) (tk_log ''[6/6] Log size check...'' s))"

text \<open>Lines 188-193.\<close>

definition summary :: "tk_state \<Rightarrow> tk_state" where
  "summary s =
     tk_log []
       (if FAILURES s = 0 \<and> WARNINGS s = 0
        then tk_log ''Health check PASSED - all systems healthy'' s
        else tk_log (''Health check COMPLETE: '' @ dec_nat (FAILURES s) @ '' failure(s), '' @
                     dec_nat (WARNINGS s) @ '' warning(s)'') s)"

text \<open>
  The whole script. It has no \<^verbatim>\<open>exit\<close> command and runs under \<^verbatim>\<open>set +e\<close>: its
  exit status is the status of its last command, the \<^verbatim>\<open>echo\<close> of \<^verbatim>\<open>log ""\<close>,
  which is 0.
\<close>

definition health_check :: "tk_world \<Rightarrow> nat \<times> tk_state" where
  "health_check w =
     (let s0 = \<lparr>FAILURES = 0, WARNINGS = 0, tk_trace = []\<rparr>;
          s1 = tk_log ''====================================='' s0;
          s2 = tk_log ''GroundUp Toolkit Health Check Start'' s1;
          s3 = tk_log ''====================================='' s2;
          s4 = gateway_process_check w s3;
          s5 = gateway_rpc_probe w s4;
          s6 = whatsapp_connection_check w s5;
          s7 = agent_heartbeat_check w s6;
          s8 = disk_memory_check w s7;
          s9 = camofox_check w s8;
          s10 = log_size_check w s9
      in (0, summary s10))"

section \<open>Notions used in the statements\<close>

text \<open>The status text on which \<^verbatim>\<open>check_whatsapp\<close> returns 0.\<close>

definition reports_connected :: "string \<Rightarrow> bool" where
  "reports_connected status =
     (grep_q [''connected''] status \<and> \<not> grep_q [''disconnected''] status)"

text \<open>
  The probe as the specification words it: healthy exactly when the command exits with
  code 0 and its output has no "disconnected" marker.
\<close>

definition spec_probe_healthy :: "cmd_result \<Rightarrow> bool" where
  "spec_probe_healthy r = (fst r = 0 \<and> \<not> grep_q [''disconnected''] (snd r))"

text \<open>The trace of a write to the state file: nothing when the write fails.\<close>

definition written :: "wd_env \<Rightarrow> int \<Rightarrow> event list" where
  "written env v = (if state_writable env then [WriteState v] else [])"

text \<open>What \<^verbatim>\<open>send_alert\<close> does after the voice call: lines 91-98.\<close>

definition alert_tail :: "wd_env \<Rightarrow> wd_world \<Rightarrow> event list" where
  "alert_tail env w =
     GmailSend (or_default (ALERT_EMAIL env) ''admin@yourcompany.com'')
        ''Assistant WhatsApp is DOWN - QR scan needed'' #
     written env (now w) @ [Log ''Alert sent (call + email)'']"

text \<open>
  The pieces of the trace of a run of the watchdog: up to the first probe, from its
  failure to the second probe, and from the failure of the second probe to the alert.
\<close>

definition first_probe :: "wd_env \<Rightarrow> event list" where
  "first_probe env =
     [Log ''Starting health check...'',
      MessageSend (or_default (ASSISTANT_WHATSAPP_PHONE env) ''+1234567890'')]"

definition recovery :: "wd_env \<Rightarrow> wd_world \<Rightarrow> event list" where
  "recovery env w =
     [LogFail (''Send failed: '' @ snd (message_send w 0)),
      Log ''Send test failed, attempting auto-recovery...'',
      Log ''Restarting gateway...'', Pkill, Sleep 3, GatewayStart, Sleep 8,
      Log (''Gateway restarted (PID: '' @ pgrep w @ '')''),
      MessageSend (or_default (ASSISTANT_WHATSAPP_PHONE env) ''+1234567890'')]"

definition giving_up :: "wd_world \<Rightarrow> event list" where
  "giving_up w =
     [LogFail (''Send failed: '' @ snd (message_send w 1)),
      LogFail ''WhatsApp is DOWN and cannot auto-recover. Needs QR re-scan.'']"

section \<open>Example inputs\<close>

definition env_twilio :: wd_env where
  "env_twilio =
     \<lparr>ASSISTANT_WHATSAPP_PHONE = ''+15550100'', ALERT_PHONE = ''+15550101'',
      ALERT_EMAIL = ''ops@example.com'', GOG_ACCOUNT = ''bot@example.com'',
      TWILIO_ACCOUNT_SID = ''AC01'', TWILIO_API_KEY_SID = ''SK01'',
      TWILIO_API_KEY_SECRET = ''secret'', TWILIO_FROM_NUMBER = ''+15550102'',
      state_writable = True\<rparr>"

definition env_no_twilio :: wd_env where
  "env_no_twilio =
     \<lparr>ASSISTANT_WHATSAPP_PHONE = ''+15550100'', ALERT_PHONE = ''+15550101'',
      ALERT_EMAIL = ''ops@example.com'', GOG_ACCOUNT = ''bot@example.com'',
      TWILIO_ACCOUNT_SID = [], TWILIO_API_KEY_SID = [],
      TWILIO_API_KEY_SECRET = [], TWILIO_FROM_NUMBER = [],
      state_writable = True\<rparr>"

text \<open>The same installation with a state file that the script's user cannot write.\<close>

definition env_unwritable :: wd_env where
  "env_unwritable = env_twilio\<lparr>state_writable := False\<rparr>"

text \<open>
  A world whose clock reads \<open>t\<close> and whose send commands give the listed results, in
  order (and fail once the list is used up).
\<close>

definition world :: "int \<Rightarrow> cmd_result list \<Rightarrow> wd_world" where
  "world t rs =
     \<lparr>now = t,
      message_send = (\<lambda>k. if k < length rs then rs ! k else (1, ''timeout'')),
      pgrep = ''4242''\<rparr>"

definition status_world :: "cmd_result list \<Rightarrow> hc_world" where
  "status_world rs =
     \<lparr>channels_status = (\<lambda>k. if k < length rs then rs ! k else (1, ''timeout''))\<rparr>"

text \<open>
  A world of the toolkit health check in which the gateway runs and WhatsApp is linked but
  disconnected, before the restart and after it.
\<close>

definition tk_whatsapp_down :: tk_world where
  "tk_whatsapp_down =
     \<lparr>TK_ALERT_EMAIL = ''ops@example.com'', GW_STATUS = ''active'', GW_STATUS2 = ''active'',
      HEALTH_OUTPUT = ''WhatsApp: linked'',
      WA_OUTPUT = ''WhatsApp: linked, stopped, disconnected'',
      WA_OUTPUT2 = ''WhatsApp: linked, stopped, disconnected'',
      HB_OUTPUT = ''heartbeat: enabled'', DISABLED = [],
      DISK_PCT = 40, MEM_PCT = 50,
      CAMOFOX_HEALTH = ''{'' @ [CHR 0x22] @ ''ok'' @ [CHR 0x22] @ '':true}'',
      CAMOFOX_HEALTH2 = ''{'' @ [CHR 0x22] @ ''ok'' @ [CHR 0x22] @ '':true}'',
      LOG_SIZES = []\<rparr>"

section \<open>Counting events\<close>

lemma probes_simps [simp]:
  "probes [] = 0"
  "probes (e # tr) = (if is_probe e then Suc (probes tr) else probes tr)"
  "probes (xs @ ys) = probes xs + probes ys"
  by (simp_all add: probes_def)

lemma recoveries_simps [simp]:
  "recoveries [] = 0"
  "recoveries (e # tr) = (if is_recovery e then Suc (recoveries tr) else recoveries tr)"
  "recoveries (xs @ ys) = recoveries xs + recoveries ys"
  by (simp_all add: recoveries_def)

lemma calls_simps [simp]:
  "calls [] = 0"
  "calls (e # tr) = (if is_call e then Suc (calls tr) else calls tr)"
  "calls (xs @ ys) = calls xs + calls ys"
  by (simp_all add: calls_def)

lemma emails_simps [simp]:
  "emails [] = 0"
  "emails (e # tr) = (if is_email e then Suc (emails tr) else emails tr)"
  "emails (xs @ ys) = emails xs + emails ys"
  by (simp_all add: emails_def)

lemma escalations_simps [simp]:
  "escalations [] = 0"
  "escalations (e # tr) = (if is_escalation e then Suc (escalations tr) else escalations tr)"
  "escalations (xs @ ys) = escalations xs + escalations ys"
  by (simp_all add: escalations_def)

section \<open>The steps of the watchdog\<close>

lemma trace_emit [simp]: "trace (emit e s) = trace s @ [e]"
  by (simp add: emit_def)

lemma state_file_emit [simp]: "state_file (emit e s) = state_file s"
  by (simp add: emit_def)

lemma trace_write_state [simp]: "trace (write_state env v s) = trace s @ written env v"
  by (simp add: write_state_def written_def)

lemma state_file_write_state [simp]:
  "state_file (write_state env v s) = (if state_writable env then Some v else state_file s)"
  by (simp add: write_state_def)

lemma count_written [simp]:
  "probes (written env v) = 0" "recoveries (written env v) = 0" "calls (written env v) = 0"
  "emails (written env v) = 0" "escalations (written env v) = 0"
  by (simp_all add: written_def)

lemma fst_try_send [simp]:
  "fst (try_send env w s) = (if fst (message_send w (probes (trace s))) = 0 then 0 else 1)"
  by (cases "message_send w (probes (trace s))") (simp add: try_send_def Let_def)

lemma state_file_try_send [simp]: "state_file (snd (try_send env w s)) = state_file s"
  by (cases "message_send w (probes (trace s))") (simp add: try_send_def Let_def)

lemma trace_try_send:
  "trace (snd (try_send env w s)) =
     trace s @ MessageSend (or_default (ASSISTANT_WHATSAPP_PHONE env) ''+1234567890'') #
       (if fst (message_send w (probes (trace s))) = 0 then []
        else [LogFail (''Send failed: '' @ snd (message_send w (probes (trace s))))])"
  by (cases "message_send w (probes (trace s))") (simp add: try_send_def Let_def)

lemma trace_restart_gateway:
  "trace (restart_gateway w s) =
     trace s @ [Log ''Restarting gateway...'', Pkill, Sleep 3, GatewayStart, Sleep 8,
                Log (''Gateway restarted (PID: '' @ pgrep w @ '')'')]"
  by (simp add: restart_gateway_def)

lemma state_file_restart_gateway [simp]: "state_file (restart_gateway w s) = state_file s"
  by (simp add: restart_gateway_def)

lemma trace_send_alert:
  "trace (send_alert env w la s) =
     trace s @ SendAlert #
       (if twilio_unset env
        then Log ''Twilio not configured, skipping call alert'' # alert_tail env w
        else if now w - la < cooldown
        then [Log (''Alert cooldown active ('' @ dec_int (now w - la) @ ''s < '' @
                    dec_int cooldown @ ''s), skipping'')]
        else Log (''Calling '' @ or_default (ALERT_PHONE env) ''+1234567890'' @
                  '' to alert about WhatsApp failure...'') #
             TwilioCall (or_default (ALERT_PHONE env) ''+1234567890'') (TWILIO_FROM_NUMBER env) #
             alert_tail env w)"
  by (simp add: send_alert_def Let_def alert_tail_def)

lemma state_file_send_alert:
  "state_file (send_alert env w la s) =
     (if \<not> twilio_unset env \<and> now w - la < cooldown then state_file s
      else if state_writable env then Some (now w) else state_file s)"
  by (simp add: send_alert_def Let_def)

section \<open>One run of the watchdog\<close>

lemma run_exit:
  "fst (run_watchdog env w f) =
     (if fst (message_send w 0) = 0 then 0 else if fst (message_send w 1) = 0 then 0 else 1)"
  by (simp add: run_watchdog_def fresh_def watchdog_def Let_def split_beta trace_try_send
        trace_restart_gateway)

lemma run_state_file:
  "state_file (snd (run_watchdog env w f)) =
     (if fst (message_send w 0) = 0 \<or> fst (message_send w 1) = 0
      then (if state_writable env then Some 0 else f)
      else if \<not> twilio_unset env \<and> now w - read_last_alert f < cooldown then f
      else if state_writable env then Some (now w) else f)"
  by (simp add: run_watchdog_def fresh_def watchdog_def Let_def split_beta trace_try_send
        trace_restart_gateway state_file_send_alert)

lemma run_trace_healthy:
  assumes "fst (message_send w 0) = 0"
  shows "trace (snd (run_watchdog env w f)) =
           first_probe env @ Log ''OK - WhatsApp is healthy'' # written env 0"
  using assms
  by (simp add: run_watchdog_def fresh_def watchdog_def Let_def split_beta trace_try_send
        first_probe_def)

lemma run_trace_recovered:
  assumes "fst (message_send w 0) \<noteq> 0" and "fst (message_send w 1) = 0"
  shows "trace (snd (run_watchdog env w f)) =
           first_probe env @ recovery env w @
           Log ''RECOVERED - WhatsApp working after gateway restart'' # written env 0"
  using assms
  by (simp add: run_watchdog_def fresh_def watchdog_def Let_def split_beta trace_try_send
        trace_restart_gateway first_probe_def recovery_def)

lemma run_trace_down:
  assumes "fst (message_send w 0) \<noteq> 0" and "fst (message_send w 1) \<noteq> 0"
  shows "trace (snd (run_watchdog env w f)) =
           first_probe env @ recovery env w @ giving_up w @
           trace (send_alert env w (read_last_alert f) \<lparr>state_file = f, trace = []\<rparr>)"
  using assms
  by (simp add: run_watchdog_def fresh_def watchdog_def Let_def split_beta trace_try_send
        trace_restart_gateway trace_send_alert first_probe_def recovery_def giving_up_def)

lemma probes_first_probe [simp]: "probes (first_probe env) = 1"
  by (simp add: first_probe_def)

lemma probes_recovery [simp]: "probes (recovery env w) = 1"
  by (simp add: recovery_def)

lemma probes_giving_up [simp]: "probes (giving_up w) = 0"
  by (simp add: giving_up_def)

lemma probes_send_alert [simp]: "probes (trace (send_alert env w la s)) = probes (trace s)"
  by (simp add: trace_send_alert alert_tail_def)

lemma recoveries_first_probe [simp]: "recoveries (first_probe env) = 0"
  by (simp add: first_probe_def)

lemma recoveries_recovery [simp]: "recoveries (recovery env w) = 1"
  by (simp add: recovery_def)

lemma recoveries_giving_up [simp]: "recoveries (giving_up w) = 0"
  by (simp add: giving_up_def)

lemma recoveries_send_alert [simp]:
  "recoveries (trace (send_alert env w la s)) = recoveries (trace s)"
  by (simp add: trace_send_alert alert_tail_def)

lemma run_probes:
  "probes (trace (snd (run_watchdog env w f))) = (if fst (message_send w 0) = 0 then 1 else 2)"
proof (cases "fst (message_send w 0) = 0")
  case True
  then show ?thesis by (simp add: run_trace_healthy)
next
  case first: False
  show ?thesis
  proof (cases "fst (message_send w 1) = 0")
    case True
    with first show ?thesis by (simp add: run_trace_recovered)
  next
    case False
    with first show ?thesis by (simp add: run_trace_down)
  qed
qed

lemma run_recoveries:
  "recoveries (trace (snd (run_watchdog env w f))) =
     (if fst (message_send w 0) = 0 then 0 else 1)"
proof (cases "fst (message_send w 0) = 0")
  case True
  then show ?thesis by (simp add: run_trace_healthy)
next
  case first: False
  show ?thesis
  proof (cases "fst (message_send w 1) = 0")
    case True
    with first show ?thesis by (simp add: run_trace_recovered)
  next
    case False
    with first show ?thesis by (simp add: run_trace_down)
  qed
qed

lemma emails_send_alert:
  "emails (trace (send_alert env w la \<lparr>state_file = f, trace = []\<rparr>)) =
     (if twilio_unset env then 1 else if now w - la < cooldown then 0 else 1)"
  by (simp add: trace_send_alert alert_tail_def)

lemma calls_send_alert:
  "calls (trace (send_alert env w la \<lparr>state_file = f, trace = []\<rparr>)) =
     (if twilio_unset env then 0 else if now w - la < cooldown then 0 else 1)"
  by (simp add: trace_send_alert alert_tail_def)

lemma emails_prefix [simp]:
  "emails (first_probe env) = 0" "emails (recovery env w) = 0" "emails (giving_up w) = 0"
  by (simp_all add: first_probe_def recovery_def giving_up_def)

lemma calls_prefix [simp]:
  "calls (first_probe env) = 0" "calls (recovery env w) = 0" "calls (giving_up w) = 0"
  by (simp_all add: first_probe_def recovery_def giving_up_def)

lemma escalations_prefix [simp]:
  "escalations (first_probe env) = 0" "escalations (recovery env w) = 0"
  "escalations (giving_up w) = 0"
  by (simp_all add: first_probe_def recovery_def giving_up_def)

lemma escalations_send_alert:
  "escalations (trace (send_alert env w la s)) = Suc (escalations (trace s))"
  by (simp add: trace_send_alert alert_tail_def)

lemma run_emails_down:
  assumes "fst (message_send w 0) \<noteq> 0" and "fst (message_send w 1) \<noteq> 0"
  shows "emails (trace (snd (run_watchdog env w f))) =
           (if twilio_unset env then 1
            else if now w - read_last_alert f < cooldown then 0 else 1)"
  using assms by (simp add: run_trace_down emails_send_alert)

lemma run_calls_down:
  assumes "fst (message_send w 0) \<noteq> 0" and "fst (message_send w 1) \<noteq> 0"
  shows "calls (trace (snd (run_watchdog env w f))) =
           (if twilio_unset env then 0
            else if now w - read_last_alert f < cooldown then 0 else 1)"
  using assms by (simp add: run_trace_down calls_send_alert)

text \<open>
  With the four Twilio variables set, a run inside the cooldown window sends nothing and
  leaves the state file as it was.
\<close>

lemma cooldown_with_twilio:
  assumes "\<not> twilio_unset env" and "now w - T < cooldown"
    and "fst (message_send w 0) \<noteq> 0" and "fst (message_send w 1) \<noteq> 0"
  shows "emails (trace (snd (run_watchdog env w (Some T)))) = 0
       \<and> calls (trace (snd (run_watchdog env w (Some T)))) = 0
       \<and> state_file (snd (run_watchdog env w (Some T))) = Some T"
  using assms by (simp add: run_emails_down run_calls_down run_state_file read_last_alert_def)

section \<open>The claims about the watchdog\<close>

text \<open>
  C2. The claim: a run that reaches escalation inside the cooldown window
  (\<open>now - T < 3600\<close>) dispatches no alert on any channel and leaves the persisted
  timestamp unchanged. The script tests the cooldown only when the Twilio variables are
  set. At the input below they are unset, the state file holds \<open>T = 1700000000\<close> and
  the clock reads \<open>T + 1800\<close>: the run sends the email and overwrites the timestamp.
\<close>

theorem C2_cooldown_skipped_without_twilio:
  "emails (trace (snd (run_watchdog env_no_twilio
      (world 1700001800 [(1, ''send failed''), (1, ''send failed'')]) (Some 1700000000)))) = 1
   \<and> state_file (snd (run_watchdog env_no_twilio
      (world 1700001800 [(1, ''send failed''), (1, ''send failed'')]) (Some 1700000000)))
      = Some 1700001800"
  by (simp add: run_emails_down run_state_file world_def env_no_twilio_def twilio_unset_def)







text \<open>
  C7. A state file that is missing or unreadable is read as 0, "never alerted", and the
  run goes on: with both probes failing it exits with status 1 and sends the email alert.
  (With the Twilio variables set the cooldown test compares \<open>now - 0\<close> with 3600, which
  every clock later than 01:00 UTC on 1 January 1970 passes.)
\<close>

theorem C7_missing_state_file:
  assumes "fst (message_send w 0) \<noteq> 0" and "fst (message_send w 1) \<noteq> 0"
    and "twilio_unset env \<or> cooldown \<le> now w"
  shows "read_last_alert None = 0
       \<and> fst (run_watchdog env w None) = 1
       \<and> emails (trace (snd (run_watchdog env w None))) = 1"
  using assms
  by (auto simp add: run_exit run_emails_down read_last_alert_def)

theorem C7_missing_state_file_witness:
  "read_last_alert None = 0
   \<and> fst (run_watchdog env_unwritable
        (world 1700000000 [(1, ''send failed''), (1, ''send failed'')]) None) = 1
   \<and> emails (trace (snd (run_watchdog env_unwritable
        (world 1700000000 [(1, ''send failed''), (1, ''send failed'')]) None))) = 1"
  using C7_missing_state_file [of "world 1700000000 [(1, ''send failed''), (1, ''send failed'')]"
      env_unwritable]
  by (simp add: world_def cooldown_def)

text \<open>
  C8. With a Twilio variable unset, a run whose two probes fail makes no voice call, says
  so in an ordinary log line, still sends the email alert (once) and exits with status 1.
\<close>

theorem C8_email_without_twilio:
  assumes "twilio_unset env"
    and "fst (message_send w 0) \<noteq> 0" and "fst (message_send w 1) \<noteq> 0"
  shows "calls (trace (snd (run_watchdog env w f))) = 0
       \<and> Log ''Twilio not configured, skipping call alert''
           \<in> set (trace (snd (run_watchdog env w f)))
       \<and> emails (trace (snd (run_watchdog env w f))) = 1
       \<and> fst (run_watchdog env w f) = 1"
proof -
  have "calls (trace (snd (run_watchdog env w f))) = 0"
    using assms by (simp add: run_calls_down)
  moreover have "Log ''Twilio not configured, skipping call alert''
      \<in> set (trace (snd (run_watchdog env w f)))"
    using assms by (simp add: run_trace_down trace_send_alert)
  moreover have "emails (trace (snd (run_watchdog env w f))) = 1"
    using assms by (simp add: run_emails_down)
  moreover have "fst (run_watchdog env w f) = 1"
    using assms by (simp add: run_exit)
  ultimately show ?thesis by simp
qed

theorem C8_email_without_twilio_witness:
  "calls (trace (snd (run_watchdog env_no_twilio
      (world 1700000000 [(1, ''send failed''), (1, ''send failed'')]) (Some 0)))) = 0
   \<and> Log ''Twilio not configured, skipping call alert''
       \<in> set (trace (snd (run_watchdog env_no_twilio
            (world 1700000000 [(1, ''send failed''), (1, ''send failed'')]) (Some 0))))
   \<and> emails (trace (snd (run_watchdog env_no_twilio
      (world 1700000000 [(1, ''send failed''), (1, ''send failed'')]) (Some 0)))) = 1
   \<and> fst (run_watchdog env_no_twilio
      (world 1700000000 [(1, ''send failed''), (1, ''send failed'')]) (Some 0)) = 1"
  using C8_email_without_twilio [of env_no_twilio
      "world 1700000000 [(1, ''send failed''), (1, ''send failed'')]" "Some 0"]
  by (simp add: world_def env_no_twilio_def twilio_unset_def)

text \<open>
  C9. Two runs one after the other, the gateway healthy in both (the second run starts
  from the state file the first one left): both exit with status 0 and the state file
  after the second run is the state file after the first.
\<close>

theorem C9_healthy_runs_idempotent:
  assumes "fst (message_send w1 0) = 0" and "fst (message_send w2 0) = 0"
  shows "fst (run_watchdog env w1 f) = 0
       \<and> fst (run_watchdog env w2 (state_file (snd (run_watchdog env w1 f)))) = 0
       \<and> state_file (snd (run_watchdog env w2 (state_file (snd (run_watchdog env w1 f)))))
           = state_file (snd (run_watchdog env w1 f))"
  using assms by (simp add: run_exit run_state_file)

theorem C9_healthy_runs_idempotent_witness:
  "fst (run_watchdog env_twilio (world 1700000000 [(0, ''sent'')]) (Some 1699990000)) = 0
   \<and> fst (run_watchdog env_twilio (world 1700000001 [(0, ''sent'')])
        (state_file (snd (run_watchdog env_twilio (world 1700000000 [(0, ''sent'')])
           (Some 1699990000))))) = 0
   \<and> state_file (snd (run_watchdog env_twilio (world 1700000001 [(0, ''sent'')])
        (state_file (snd (run_watchdog env_twilio (world 1700000000 [(0, ''sent'')])
           (Some 1699990000))))))
       = state_file (snd (run_watchdog env_twilio (world 1700000000 [(0, ''sent'')])
           (Some 1699990000)))"
  using C9_healthy_runs_idempotent [of "world 1700000000 [(0, ''sent'')]"
      "world 1700000001 [(0, ''sent'')]" env_twilio "Some 1699990000"]
  by (simp add: world_def)




section \<open>One run of whatsapp-healthcheck.sh\<close>

lemma fst_check_whatsapp:
  "fst (check_whatsapp w tr) =
     (if reports_connected (snd (channels_status w (probes tr))) then 0 else 1)"
  by (cases "channels_status w (probes tr)")
    (simp add: check_whatsapp_def Let_def reports_connected_def)

lemma snd_check_whatsapp [simp]: "snd (check_whatsapp w tr) = tr @ [ChannelsStatus]"
  by (cases "channels_status w (probes tr)") (simp add: check_whatsapp_def Let_def)

lemma probes_hc_restart [simp]: "probes (hc_restart_gateway tr) = probes tr"
  by (simp add: hc_restart_gateway_def)

lemma recoveries_hc_restart [simp]:
  "recoveries (hc_restart_gateway tr) = Suc (recoveries tr)"
  by (simp add: hc_restart_gateway_def)

lemma hc_exit:
  "fst (whatsapp_healthcheck w) =
     (if reports_connected (snd (channels_status w 0)) then 0
      else if reports_connected (snd (channels_status w 1)) then 0
      else if reports_connected (snd (channels_status w 2)) then 0 else 1)"
  by (simp add: whatsapp_healthcheck_def Let_def split_beta fst_check_whatsapp numeral_2_eq_2)

lemma hc_probes:
  "probes (snd (whatsapp_healthcheck w)) =
     (if reports_connected (snd (channels_status w 0)) then 1
      else if reports_connected (snd (channels_status w 1)) then 2 else 3)"
  by (simp add: whatsapp_healthcheck_def Let_def split_beta fst_check_whatsapp)

lemma hc_recoveries:
  "recoveries (snd (whatsapp_healthcheck w)) =
     (if reports_connected (snd (channels_status w 0)) then 0
      else if reports_connected (snd (channels_status w 1)) then 1 else 2)"
  by (simp add: whatsapp_healthcheck_def Let_def split_beta fst_check_whatsapp)

lemma hc_no_alert:
  "escalations (snd (whatsapp_healthcheck w)) = 0
   \<and> emails (snd (whatsapp_healthcheck w)) = 0
   \<and> calls (snd (whatsapp_healthcheck w)) = 0"
  by (simp add: whatsapp_healthcheck_def Let_def split_beta fst_check_whatsapp
        hc_restart_gateway_def)

lemma disconnected_not_reported: "\<not> reports_connected ''WhatsApp: disconnected''"
  by code_simp

section \<open>The claims about the probes and their number\<close>

text \<open>
  C1. The claim: for every sequence of probe outcomes, one invocation of the
  health-check or watchdog orchestrator makes at most 2 probes and at most 1 gateway
  restart. It fails for whatsapp-healthcheck.sh, whose step 3 is a second restart
  followed by a third probe: with the status reading "disconnected" each time, the run
  makes 3 probes and 2 restarts.
\<close>

theorem C1_healthcheck_three_probes:
  "\<not> (probes (snd (whatsapp_healthcheck (status_world
          [(0, ''WhatsApp: disconnected''), (0, ''WhatsApp: disconnected''),
           (0, ''WhatsApp: disconnected'')]))) \<le> 2
      \<and> recoveries (snd (whatsapp_healthcheck (status_world
          [(0, ''WhatsApp: disconnected''), (0, ''WhatsApp: disconnected''),
           (0, ''WhatsApp: disconnected'')]))) \<le> 1)"
  by (simp add: hc_probes hc_recoveries status_world_def disconnected_not_reported)

text \<open>
  C1, as amended. For every sequence of probe outcomes, one run of
  whatsapp-watchdog.sh makes at most 2 probes and at most 1 gateway restart, and one run
  of whatsapp-healthcheck.sh makes at most 3 probes and at most 2 gateway restarts.
\<close>

theorem C1_bounded_probes_and_restarts:
  "probes (trace (snd (run_watchdog env w f))) \<le> 2
   \<and> recoveries (trace (snd (run_watchdog env w f))) \<le> 1
   \<and> probes (snd (whatsapp_healthcheck hw)) \<le> 3
   \<and> recoveries (snd (whatsapp_healthcheck hw)) \<le> 2"
  by (simp add: run_probes run_recoveries hc_probes hc_recoveries)

text \<open>
  C4. The claim fails for both probes. \<^verbatim>\<open>try_send\<close> never reads the output: a send
  command that exits with 0 and prints "gateway disconnected" is healthy for it.
  \<^verbatim>\<open>check_whatsapp\<close> never reads the exit code and needs the word "connected": a
  status command that exits with 0 and prints "WhatsApp: linked, running" is unhealthy
  for it.
\<close>

theorem C4_probes_differ_from_spec:
  "fst (try_send env_twilio (world 1700000000 [(0, ''gateway disconnected'')]) (fresh None)) = 0
   \<and> \<not> spec_probe_healthy (0, ''gateway disconnected'')
   \<and> fst (check_whatsapp (status_world [(0, ''WhatsApp: linked, running'')]) []) = 1
   \<and> spec_probe_healthy (0, ''WhatsApp: linked, running'')"
proof -
  have "fst (try_send env_twilio (world 1700000000 [(0, ''gateway disconnected'')])
      (fresh None)) = 0"
    by (simp add: world_def fresh_def)
  moreover have "\<not> spec_probe_healthy (0, ''gateway disconnected'')"
    by code_simp
  moreover have "\<not> reports_connected ''WhatsApp: linked, running''"
    by code_simp
  then have "fst (check_whatsapp (status_world [(0, ''WhatsApp: linked, running'')]) []) = 1"
    by (simp add: fst_check_whatsapp status_world_def)
  moreover have "spec_probe_healthy (0, ''WhatsApp: linked, running'')"
    by code_simp
  ultimately show ?thesis by simp
qed

text \<open>
  C4, as amended. \<^verbatim>\<open>try_send\<close> reports healthy (returns 0) exactly when the send
  command exits with code 0, whatever it prints. \<^verbatim>\<open>check_whatsapp\<close> reports healthy
  exactly when the status text has "connected" and has no "disconnected", whatever the
  exit code. Every other outcome is the return code 1: neither function passes an error
  on to its caller.
\<close>

theorem C4_probe_verdicts:
  "((fst (try_send env w s) = 0) = (fst (message_send w (probes (trace s))) = 0))
   \<and> (fst (try_send env w s) = 0 \<or> fst (try_send env w s) = 1)
   \<and> ((fst (check_whatsapp hw tr) = 0) =
        (grep_q [''connected''] (snd (channels_status hw (probes tr)))
         \<and> \<not> grep_q [''disconnected''] (snd (channels_status hw (probes tr)))))
   \<and> (fst (check_whatsapp hw tr) = 0 \<or> fst (check_whatsapp hw tr) = 1)"
  by (simp add: fst_check_whatsapp reports_connected_def)

section \<open>The claim about exit codes and escalation\<close>

lemma run_escalations:
  "escalations (trace (snd (run_watchdog env w f))) =
     (if fst (message_send w 0) = 0 then 0 else if fst (message_send w 1) = 0 then 0 else 1)"
proof (cases "fst (message_send w 0) = 0")
  case True
  then show ?thesis by (simp add: run_trace_healthy)
next
  case first: False
  show ?thesis
  proof (cases "fst (message_send w 1) = 0")
    case True
    with first show ?thesis by (simp add: run_trace_recovered)
  next
    case False
    with first show ?thesis by (simp add: run_trace_down escalations_send_alert)
  qed
qed

lemma health_check_exit: "fst (health_check w) = 0"
  by (simp add: health_check_def Let_def)

text \<open>
  C3. The claim: a run that ends with the gateway still unhealthy after the bounded
  recovery exits with status 1. It fails for health-check.sh: with WhatsApp still
  disconnected after the gateway restart, the run counts the failure, sends its alert
  email, and exits with status 0, as every run of that script does.
\<close>

theorem C3_health_check_exits_zero:
  "fst (health_check tk_whatsapp_down) = 0
   \<and> FAILURES (snd (health_check tk_whatsapp_down)) = 1
   \<and> LogFail ''WhatsApp failed to reconnect after restart!''
       \<in> set (tk_trace (snd (health_check tk_whatsapp_down)))
   \<and> escalations (tk_trace (snd (health_check tk_whatsapp_down))) = 1"
  by code_simp

text \<open>
  C3, as amended. A run of whatsapp-watchdog.sh whose two probes both fail exits with
  status 1 and enters \<^verbatim>\<open>send_alert\<close> exactly once; a run in which a probe succeeds
  exits with status 0 and does not escalate. A run of whatsapp-healthcheck.sh exits with
  status 1 when its three probes all fail and with status 0 otherwise, and never sends an
  alert. A run of health-check.sh always exits with status 0; it reports failures in its
  log and by email only.
\<close>

theorem C3_exit_codes:
  "fst (run_watchdog env w f) =
     (if fst (message_send w 0) = 0 then 0 else if fst (message_send w 1) = 0 then 0 else 1)
   \<and> escalations (trace (snd (run_watchdog env w f))) =
     (if fst (message_send w 0) = 0 then 0 else if fst (message_send w 1) = 0 then 0 else 1)
   \<and> fst (whatsapp_healthcheck hw) =
     (if reports_connected (snd (channels_status hw 0)) then 0
      else if reports_connected (snd (channels_status hw 1)) then 0
      else if reports_connected (snd (channels_status hw 2)) then 0 else 1)
   \<and> escalations (snd (whatsapp_healthcheck hw)) = 0
   \<and> emails (snd (whatsapp_healthcheck hw)) = 0
   \<and> calls (snd (whatsapp_healthcheck hw)) = 0
   \<and> fst (health_check tw) = 0"
  by (simp add: run_exit run_escalations hc_exit hc_no_alert health_check_exit)

end
